theory Spec2Isabelle
  imports Complex_Main
begin

section \<open>Python strings\<close>

text \<open>
  A Python \<open>str\<close> is modelled as a \<open>string\<close> (a list of 8-bit characters, read as the
  code points below 256).  The helpers below follow the built-in methods the sources
  call: \<open>str.isspace\<close>, \<open>str.strip\<close>, \<open>str.split\<close> (with and without a separator),
  \<open>str.upper\<close>, \<open>str.lower\<close>, \<open>str.startswith\<close>, the operator \<open>in\<close>, \<open>str.replace\<close>,
  \<open>str.join\<close> and \<open>str\<close> of a non-negative integer.  Case mapping is the ASCII one.
\<close>

abbreviation nl :: string where
  "nl \<equiv> [CHR 0x0A]"

definition py_isspace :: "char \<Rightarrow> bool" where
  "py_isspace c = (of_char c \<in> set [9, 10, 11, 12, 13, 28, 29, 30, 31, 32, 133, 160 :: nat])"

definition py_strip :: "string \<Rightarrow> string" where
  "py_strip s = rev (dropWhile py_isspace (rev (dropWhile py_isspace s)))"

fun split_ws :: "string \<Rightarrow> string \<Rightarrow> string list" where
  "split_ws w [] = (if w = [] then [] else [w])"
| "split_ws w (c # cs) =
     (if py_isspace c then (if w = [] then [] else [w]) @ split_ws [] cs
      else split_ws (w @ [c]) cs)"

definition py_split :: "string \<Rightarrow> string list" where
  "py_split s = split_ws [] s"

fun split_sep :: "char \<Rightarrow> string \<Rightarrow> string \<Rightarrow> string list" where
  "split_sep sep w [] = [w]"
| "split_sep sep w (c # cs) =
     (if c = sep then w # split_sep sep [] cs else split_sep sep (w @ [c]) cs)"

definition py_split_on :: "char \<Rightarrow> string \<Rightarrow> string list" where
  "py_split_on sep s = split_sep sep [] s"

definition upper_char :: "char \<Rightarrow> char" where
  "upper_char c =
     (let n = (of_char c :: nat) in if 97 \<le> n \<and> n \<le> 122 then char_of (n - 32) else c)"

definition lower_char :: "char \<Rightarrow> char" where
  "lower_char c =
     (let n = (of_char c :: nat) in if 65 \<le> n \<and> n \<le> 90 then char_of (n + 32) else c)"

definition py_upper :: "string \<Rightarrow> string" where
  "py_upper s = map upper_char s"

definition py_lower :: "string \<Rightarrow> string" where
  "py_lower s = map lower_char s"

fun startswith :: "string \<Rightarrow> string \<Rightarrow> bool" where
  "startswith s [] = True"
| "startswith [] (p # ps) = False"
| "startswith (c # cs) (p # ps) = (c = p \<and> startswith cs ps)"

fun contains :: "string \<Rightarrow> string \<Rightarrow> bool" where
  "contains sub [] = (sub = [])"
| "contains sub (c # cs) = (startswith (c # cs) sub \<or> contains sub cs)"

fun replace_fuel :: "nat \<Rightarrow> string \<Rightarrow> string \<Rightarrow> string \<Rightarrow> string" where
  "replace_fuel 0 old new s = s"
| "replace_fuel (Suc k) old new [] = []"
| "replace_fuel (Suc k) old new (c # cs) =
     (if startswith (c # cs) old
      then new @ replace_fuel k old new (drop (length old) (c # cs))
      else c # replace_fuel k old new cs)"

definition py_replace :: "string \<Rightarrow> string \<Rightarrow> string \<Rightarrow> string" where
  \<comment> \<open>\<open>s.replace(old, new)\<close> for a non-empty \<open>old\<close>: the occurrences are replaced from the
      left, without overlap.  An empty \<open>old\<close> is not used by the sources; the text is then
      returned as it is.\<close>
  "py_replace old new s = (if old = [] then s else replace_fuel (Suc (length s)) old new s)"

fun py_join :: "string \<Rightarrow> string list \<Rightarrow> string" where
  "py_join sep [] = []"
| "py_join sep [x] = x"
| "py_join sep (x # y # ys) = x @ sep @ py_join sep (y # ys)"

definition digit_char :: "nat \<Rightarrow> char" where
  "digit_char d = char_of (48 + d)"

function py_str :: "nat \<Rightarrow> string" where
  \<comment> \<open>the decimal numeral of a non-negative integer\<close>
  "py_str n = (if n < 10 then [digit_char n] else py_str (n div 10) @ [digit_char (n mod 10)])"
  by pat_completeness auto
termination
  by (relation "measure id") auto

declare py_str.simps [simp del]

section \<open>Content validator (src/core/data\_pipeline.py)\<close>

text \<open>
  \<open>ContentValidator.validate_content\<close> builds a dictionary with the keys \<open>is_valid\<close>,
  \<open>issues\<close>, \<open>warnings\<close> and \<open>metrics\<close>.  The record below has one field per key; of the
  metrics the integer \<open>word_count\<close> is kept (the other metric is a rounded floating-point
  average that no check reads back).
\<close>

record validation_results =
  is_valid :: bool
  issues :: "string list"
  warnings :: "string list"
  word_count :: nat

definition min_word_count :: nat where
  "min_word_count = 100"

definition max_word_count :: nat where
  "max_word_count = 3000"

text \<open>\<open>re.search(r'\[.*?\]', content)\<close>: an opening bracket followed, on the same line,
  by a closing one.\<close>

fun closes_on_line :: "string \<Rightarrow> bool" where
  "closes_on_line [] = False"
| "closes_on_line (c # cs) =
     (if c = CHR '']'' then True else if c = CHR 0x0A then False else closes_on_line cs)"

fun bracket_pattern :: "string \<Rightarrow> bool" where
  "bracket_pattern [] = False"
| "bracket_pattern (c # cs) = ((c = CHR ''['' \<and> closes_on_line cs) \<or> bracket_pattern cs)"

definition placeholder_patterns :: "(string \<times> (string \<Rightarrow> bool)) list" where
  \<comment> \<open>each pattern's source text, and its case-insensitive search\<close>
  "placeholder_patterns =
     [([CHR 0x5C] @ ''[.*?'' @ [CHR 0x5C] @ '']'', bracket_pattern),
      (''TODO'', \<lambda>s. contains ''TODO'' (py_upper s)),
      (''PLACEHOLDER'', \<lambda>s. contains ''PLACEHOLDER'' (py_upper s)),
      (''Lorem ipsum'', \<lambda>s. contains ''LOREM IPSUM'' (py_upper s))]"

text \<open>\<open>len(re.split(r'[.!?]+', content))\<close>: one more than the number of maximal runs of
  sentence punctuation.\<close>

definition is_terminal :: "char \<Rightarrow> bool" where
  "is_terminal c = (c = CHR ''.'' \<or> c = CHR ''!'' \<or> c = CHR ''?'')"

fun punct_runs :: "bool \<Rightarrow> string \<Rightarrow> nat" where
  "punct_runs inrun [] = 0"
| "punct_runs inrun (c # cs) =
     (if is_terminal c then (if inrun then 0 else 1) + punct_runs True cs
      else punct_runs False cs)"

definition sentence_count :: "string \<Rightarrow> nat" where
  "sentence_count s = Suc (punct_runs False s)"

definition validate_content :: "string \<Rightarrow> string list \<Rightarrow> validation_results" where
  \<comment> \<open>the second argument is \<open>metadata.get("seo_keywords", [])\<close>\<close>
  "validate_content content seo_keywords =
     (let wc = length (py_split content);
          r0 = \<lparr>is_valid = True, issues = [], warnings = [], word_count = wc\<rparr>;
          r1 = (if wc < min_word_count
                then r0\<lparr>issues := issues r0 @
                         [''Content too short: '' @ py_str wc @ '' words (minimum: '' @
                          py_str min_word_count @ '')''],
                       is_valid := False\<rparr>
                else r0);
          r2 = (if wc > max_word_count
                then r1\<lparr>issues := issues r1 @
                         [''Content too long: '' @ py_str wc @ '' words (maximum: '' @
                          py_str max_word_count @ '')''],
                       is_valid := False\<rparr>
                else r1);
          r3 = (if py_strip content = []
                then r2\<lparr>issues := issues r2 @ [''Content is empty''], is_valid := False\<rparr>
                else r2);
          r4 = r3\<lparr>warnings := warnings r3 @
                  map (\<lambda>(p, search). ''Possible placeholder content found: '' @ p)
                    (filter (\<lambda>(p, search). search content) placeholder_patterns)\<rparr>;
          missing = filter (\<lambda>k. \<not> contains (py_lower k) (py_lower content)) seo_keywords;
          r5 = (if seo_keywords \<noteq> [] \<and> missing \<noteq> []
                then r4\<lparr>warnings := warnings r4 @
                         [''SEO keywords not found in content: '' @ py_join '', '' missing]\<rparr>
                else r4);
          r6 = (if wc > 25 * sentence_count content
                then r5\<lparr>warnings := warnings r5 @
                         [''Average sentence length is high, consider breaking up long sentences'']\<rparr>
                else r5)
      in r6)"

section \<open>Python floats read from text\<close>

text \<open>
  The reviewer converts a piece of the model's answer with \<open>float(...)\<close>.  A float is
  modelled as the rational number its literal denotes, or one of the three special values
  the built-in also accepts (\<open>inf\<close>, \<open>-inf\<close>, \<open>nan\<close>); rounding to 53 bits is not modelled.
  \<open>py_float\<close> follows the grammar of the built-in: surrounding whitespace is dropped, then
  an optional sign, then \<open>inf\<close>, \<open>infinity\<close> or \<open>nan\<close> in any case, or a decimal number
  with an optional fraction and an optional exponent, whose digit groups may be separated
  by single underscores.  \<open>None\<close> stands for the \<open>ValueError\<close> of the built-in.
\<close>

datatype pyfloat = Fin rat | PosInf | NegInf | NaN

fun float_less :: "pyfloat \<Rightarrow> pyfloat \<Rightarrow> bool" where
  "float_less (Fin a) (Fin b) = (a < b)"
| "float_less (Fin a) PosInf = True"
| "float_less NegInf (Fin b) = True"
| "float_less NegInf PosInf = True"
| "float_less x y = False"

definition truthy :: "pyfloat \<Rightarrow> bool" where
  \<comment> \<open>a float is false in a Boolean context exactly when it is zero\<close>
  "truthy x = (x \<noteq> Fin 0)"

definition is_digit :: "char \<Rightarrow> bool" where
  "is_digit c = (48 \<le> (of_char c :: nat) \<and> (of_char c :: nat) \<le> 57)"

definition digit_val :: "char \<Rightarrow> nat" where
  "digit_val c = of_char c - 48"

fun digitpart :: "string \<Rightarrow> nat list option" where
  "digitpart [] = None"
| "digitpart [c] = (if is_digit c then Some [digit_val c] else None)"
| "digitpart (c # d # cs) =
     (if is_digit c
      then (case (if d = CHR ''_'' then digitpart cs else digitpart (d # cs)) of
              None \<Rightarrow> None
            | Some ds \<Rightarrow> Some (digit_val c # ds))
      else None)"

definition nat_of_digits :: "nat list \<Rightarrow> nat" where
  "nat_of_digits ds = foldl (\<lambda>a d. 10 * a + d) 0 ds"

definition parse_number :: "string \<Rightarrow> (nat \<times> nat) option" where
  \<comment> \<open>the digits of the number read as one integer, and how many of them follow the point\<close>
  "parse_number s =
     (case py_split_on (CHR ''.'') s of
        [i] \<Rightarrow> map_option (\<lambda>ds. (nat_of_digits ds, 0)) (digitpart i)
      | [i, f] \<Rightarrow>
          (if f = [] then map_option (\<lambda>ds. (nat_of_digits ds, 0)) (digitpart i)
           else if i = [] then map_option (\<lambda>fs. (nat_of_digits fs, length fs)) (digitpart f)
           else (case (digitpart i, digitpart f) of
                   (Some ds, Some fs) \<Rightarrow> Some (nat_of_digits (ds @ fs), length fs)
                 | _ \<Rightarrow> None))
      | _ \<Rightarrow> None)"

definition parse_sign :: "string \<Rightarrow> bool \<times> string" where
  \<comment> \<open>whether a minus sign leads, and the text after the optional sign\<close>
  "parse_sign s =
     (case s of
        c # cs \<Rightarrow> (if c = CHR ''-'' then (True, cs) else if c = CHR ''+'' then (False, cs)
                   else (False, s))
      | [] \<Rightarrow> (False, s))"

definition parse_exponent :: "string \<Rightarrow> int option" where
  "parse_exponent s =
     (case parse_sign s of
        (neg, ds) \<Rightarrow>
          map_option (\<lambda>d. if neg then - int (nat_of_digits d) else int (nat_of_digits d))
            (digitpart ds))"

definition is_exp_char :: "char \<Rightarrow> bool" where
  "is_exp_char c = (c = CHR ''e'' \<or> c = CHR ''E'')"

definition scale10 :: "nat \<Rightarrow> int \<Rightarrow> rat" where
  "scale10 n e = (if 0 \<le> e then of_nat n * 10 ^ nat e else of_nat n / 10 ^ nat (- e))"

definition parse_floatnumber :: "string \<Rightarrow> rat option" where
  "parse_floatnumber s =
     (let mant = takeWhile (\<lambda>c. \<not> is_exp_char c) s;
          rest = dropWhile (\<lambda>c. \<not> is_exp_char c) s
      in case parse_number mant of
           None \<Rightarrow> None
         | Some (n, k) \<Rightarrow>
             (if rest = [] then Some (scale10 n (- int k))
              else (case parse_exponent (tl rest) of
                      None \<Rightarrow> None
                    | Some e \<Rightarrow> Some (scale10 n (e - int k)))))"

definition py_float :: "string \<Rightarrow> pyfloat option" where
  "py_float s =
     (case parse_sign (py_strip s) of
        (neg, body) \<Rightarrow>
          (if py_lower body = ''inf'' \<or> py_lower body = ''infinity''
           then Some (if neg then NegInf else PosInf)
           else if py_lower body = ''nan'' then Some NaN
           else map_option (\<lambda>q. Fin (if neg then - q else q)) (parse_floatnumber body)))"

section \<open>Agents (src/agents)\<close>

text \<open>
  Every agent sends one prompt to the inference client and works on the answer.  The
  client is an external service: the outcome of the call (\<open>generate_response\<close>, which
  re-raises whatever the client raises) is an argument of the model, \<open>Inl\<close> for an exception
  and \<open>Inr\<close> for the generated text.  The arguments that only feed the prompt are kept in
  the signatures.  Dictionaries with a fixed set of keys are records.
\<close>

datatype error = ValueError string | ModelError string

fun error_message :: "error \<Rightarrow> string" where
  \<comment> \<open>\<open>str(e)\<close>\<close>
  "error_message (ValueError m) = m"
| "error_message (ModelError m) = m"

record example_document =
  ex_id :: string
  ex_content :: string

record content_requirements =
  cr_topic :: string
  cr_category :: string
  cr_industry :: string
  cr_target_audience :: string
  cr_seo_keywords :: "string list"
  cr_content_length :: string

record content_metadata =
  cm_topic :: string
  cm_category :: string
  cm_industry :: string
  cm_target_audience :: string
  cm_seo_keywords :: "string list"
  cm_estimated_word_count :: nat
  cm_content_length :: string

record writing_result =
  article_content :: string
  wr_content_metadata :: content_metadata

subsection \<open>Writer (writer\_agent.py)\<close>

definition writer_process ::
  "string \<Rightarrow> example_document list \<Rightarrow> content_requirements \<Rightarrow> error + string \<Rightarrow>
   error + writing_result" where
  "writer_process research_insights relevant_examples reqs response =
     (if research_insights = [] then Inl (ValueError ''Research insights are required for writing'')
      else (case response of
              Inl e \<Rightarrow> Inl e
            | Inr generated \<Rightarrow>
                Inr \<lparr>article_content = generated,
                     wr_content_metadata =
                       \<lparr>cm_topic = cr_topic reqs, cm_category = cr_category reqs,
                        cm_industry = cr_industry reqs,
                        cm_target_audience = cr_target_audience reqs,
                        cm_seo_keywords = cr_seo_keywords reqs,
                        cm_estimated_word_count = length (py_split generated),
                        cm_content_length = cr_content_length reqs\<rparr>\<rparr>))"

subsection \<open>Reviewer (reviewer\_agent.py)\<close>

record quality_assessment =
  overall_score :: pyfloat
  suggestions :: "string list"
  needs_revision :: bool

record review_result =
  review_feedback :: string
  rv_quality_assessment :: quality_assessment
  rv_content_metadata :: content_metadata

text \<open>
  The first loop of \<open>_parse_review_feedback\<close>: it stops at the first line whose upper-case
  form contains the marker.  The result is \<open>Inl\<close> when \<open>float\<close> raises, otherwise the value
  of \<open>overall_score\<close> after the loop (\<open>None\<close> when it was never assigned).
\<close>

fun extract_score :: "string list \<Rightarrow> unit + pyfloat option" where
  "extract_score [] = Inr None"
| "extract_score (line # rest) =
     (if contains ''OVERALL SCORE:'' (py_upper line)
      then (let score_part = py_strip (last (py_split_on (CHR '':'') line))
            in if contains ''/'' score_part
               then (case py_float (hd (py_split_on (CHR ''/'') score_part)) of
                       None \<Rightarrow> Inl ()
                     | Some v \<Rightarrow> Inr (Some v))
               else Inr None)
      else extract_score rest)"


text \<open>
  The second loop, with its two section flags.  The source also accepts a line that starts
  with a three-character bullet whose middle character is the code point U+20AC; no
  string of the model contains that character, so only the hyphen is left.
\<close>

fun collect_suggestions :: "bool \<Rightarrow> bool \<Rightarrow> string list \<Rightarrow> string list" where
  "collect_suggestions imp recs [] = []"
| "collect_suggestions imp recs (raw # rest) =
     (let line = py_strip raw
      in if contains ''AREAS FOR IMPROVEMENT:'' (py_upper line)
         then collect_suggestions True False rest
         else if contains ''RECOMMENDED CHANGES:'' (py_upper line)
         then collect_suggestions False True rest
         else if startswith line ''-''
         then (if imp \<or> recs then py_strip (tl line) # collect_suggestions imp recs rest
               else collect_suggestions imp recs rest)
         else collect_suggestions imp recs rest)"

definition parse_review_feedback :: "string \<Rightarrow> quality_assessment" where
  "parse_review_feedback feedback =
     (let lines = py_split_on (CHR 0x0A) feedback
      in case extract_score lines of
           Inl _ \<Rightarrow>
             \<lparr>overall_score = Fin 7,
              suggestions = [''Review parsing failed - manual review recommended''],
              needs_revision = False\<rparr>
         | Inr sc \<Rightarrow>
             (let score = (case sc of None \<Rightarrow> Fin 7
                           | Some v \<Rightarrow> if truthy v then v else Fin 7)
              in \<lparr>overall_score = score,
                  suggestions = collect_suggestions False False lines,
                  needs_revision = float_less score (Fin 7)\<rparr>))"

definition reviewer_process ::
  "string \<Rightarrow> content_metadata \<Rightarrow> error + string \<Rightarrow> error + review_result" where
  "reviewer_process content md response =
     (if content = [] then Inl (ValueError ''Article content is required for review'')
      else (case response of
              Inl e \<Rightarrow> Inl e
            | Inr feedback \<Rightarrow>
                Inr \<lparr>review_feedback = feedback,
                     rv_quality_assessment = parse_review_feedback feedback,
                     rv_content_metadata = md\<rparr>))"

subsection \<open>Rewriter (rewriter\_agent.py)\<close>

definition meta_commentary :: "string \<Rightarrow> bool" where
  "meta_commentary line =
     (list_ex (startswith line)
        [''Here is'', ''Here'' @ [CHR 0x27] @ ''s'', ''I have'', ''I'' @ [CHR 0x27] @ ''ve'',
         ''The rewritten'', ''This rewritten'']
      \<or> contains ''rewritten'' (take 50 (py_lower line))
      \<or> list_ex (startswith line) [''Note:'', ''Please'', ''Remember''])"

definition parse_rewriting_response :: "string \<Rightarrow> string" where
  "parse_rewriting_response response =
     (let content = py_strip response;
          cleaned_lines =
            filter (\<lambda>l. \<not> meta_commentary l \<and> l \<noteq> [])
              (map py_strip (py_split_on (CHR 0x0A) content))
      in if cleaned_lines \<noteq> [] then py_join [CHR 0x0A, CHR 0x0A] cleaned_lines else content)"

definition business_terms :: "string list" where
  "business_terms =
     [''strategy'', ''innovation'', ''transformation'', ''efficiency'', ''optimization'',
      ''competitive advantage'', ''roi'', ''digital'', ''technology'', ''future'',
      ''opportunity'', ''growth'', ''value'', ''solution'', ''insight'']"

definition count_sentences :: "string \<Rightarrow> nat" where
  "count_sentences s = length (filter (\<lambda>p. py_strip p \<noteq> []) (py_split_on (CHR ''.'') s))"

definition count_business_terms :: "string \<Rightarrow> nat" where
  "count_business_terms s = length (filter (\<lambda>t. contains t (py_lower s)) business_terms)"

text \<open>
  The metrics dictionary: either the computed metrics or, after a failure, the single key
  \<open>error\<close>.  The two averages rounded to one decimal place are left out.
\<close>

record metrics =
  word_count_change :: int
  sentence_count_change :: int
  business_terms_original :: nat
  business_terms_rewritten :: nat
  business_terms_improvement :: int
  improvements_count :: int
  quality_enhancement :: string

datatype improvement_metrics = Computed metrics | Failed string

definition calculate_improvements :: "string \<Rightarrow> string \<Rightarrow> metrics" where
  "calculate_improvements original rewritten =
     (let original_words = int (length (py_split original));
          rewritten_words = int (length (py_split rewritten));
          original_sentences = int (count_sentences original);
          rewritten_sentences = int (count_sentences rewritten);
          original_terms = count_business_terms original;
          rewritten_terms = count_business_terms rewritten
      in \<lparr>word_count_change = rewritten_words - original_words,
          sentence_count_change = rewritten_sentences - original_sentences,
          business_terms_original = original_terms,
          business_terms_rewritten = rewritten_terms,
          business_terms_improvement = int rewritten_terms - int original_terms,
          improvements_count =
            max 0 ((int rewritten_terms - int original_terms) +
                   max 0 (original_sentences - rewritten_sentences) div 2),
          quality_enhancement =
            (if 10 * rewritten_words > 11 * original_words then ''Significant''
             else ''Moderate'')\<rparr>)"

record rewrite_result =
  rewritten_content :: string
  original_content :: string
  rw_improvement_metrics :: improvement_metrics
  rewriting_applied :: bool
  target_quality_score :: rat

definition rewrite_content ::
  "string \<Rightarrow> content_metadata \<Rightarrow> string list \<Rightarrow> example_document list \<Rightarrow> error + string \<Rightarrow>
   rewrite_result" where
  "rewrite_content content md feedback style_examples response =
     (case response of
        Inr generated \<Rightarrow>
          (let rewritten = parse_rewriting_response generated
           in \<lparr>rewritten_content = rewritten,
               original_content = content,
               rw_improvement_metrics = Computed (calculate_improvements content rewritten),
               rewriting_applied = True,
               target_quality_score = 10\<rparr>)
      | Inl e \<Rightarrow>
          \<lparr>rewritten_content = content,
           original_content = content,
           rw_improvement_metrics = Failed (error_message e),
           rewriting_applied = False,
           target_quality_score = 8\<rparr>)"

section \<open>Coordinator (src/agents/coordinator.py)\<close>

text \<open>
  A request is a dictionary read with \<open>get\<close>: the keys whose default is the empty string
  or the empty list are plain fields, the two keys with another default are optional.
\<close>

record generation_request =
  req_topic :: string
  req_category :: string
  req_industry :: string
  req_target_audience :: "string option"
  req_seo_keywords :: "string list"
  req_content_length :: "string option"

record research_metadata =
  rs_topic :: string
  rs_category :: string
  rs_industry :: string
  rs_keywords :: "string list"

record research_result =
  research_insights :: string
  relevant_examples :: "example_document list"
  rs_research_metadata :: research_metadata

definition simplified_research :: "generation_request \<Rightarrow> research_result" where
  "simplified_research request =
     \<lparr>research_insights =
        ''Content topic: '' @ req_topic request @ ''. Category: '' @ req_category request @
        ''. Industry: '' @ req_industry request @ ''.'',
      relevant_examples = [],
      rs_research_metadata =
        \<lparr>rs_topic = req_topic request, rs_category = req_category request,
         rs_industry = req_industry request, rs_keywords = req_seo_keywords request\<rparr>\<rparr>"

definition execute_writing ::
  "research_result \<Rightarrow> generation_request \<Rightarrow> error + string \<Rightarrow> error + writing_result" where
  "execute_writing research request response =
     writer_process (research_insights research) (relevant_examples research)
       \<lparr>cr_topic = req_topic request, cr_category = req_category request,
        cr_industry = req_industry request,
        cr_target_audience =
          (case req_target_audience request of None \<Rightarrow> ''business executives'' | Some a \<Rightarrow> a),
        cr_seo_keywords = req_seo_keywords request,
        cr_content_length =
          (case req_content_length request of None \<Rightarrow> ''medium'' | Some l \<Rightarrow> l)\<rparr>
       response"

definition execute_review :: "writing_result \<Rightarrow> error + string \<Rightarrow> error + review_result" where
  "execute_review writing response =
     reviewer_process (article_content writing) (wr_content_metadata writing) response"

text \<open>
  The rewriting stage returns the writer's metadata extended by three keys, and the
  rewriter's own result under \<open>rewriting_data\<close>.
\<close>

record rewritten_metadata = content_metadata +
  md_rewriting_applied :: bool
  md_target_quality_score :: rat
  md_improvement_metrics :: improvement_metrics

record rewriting_stage_result =
  st_article_content :: string
  st_content_metadata :: rewritten_metadata
  rewriting_data :: rewrite_result

definition execute_rewriting ::
  "writing_result \<Rightarrow> review_result \<Rightarrow> research_result \<Rightarrow> error + string \<Rightarrow>
   rewriting_stage_result" where
  "execute_rewriting writing review research response =
     (let content = article_content writing;
          md = wr_content_metadata writing;
          feedback_list =
            (if review_feedback review \<noteq> [] then [review_feedback review] else []) @
            suggestions (rv_quality_assessment review);
          style_examples = relevant_examples research;
          rewriting_result = rewrite_content content md feedback_list style_examples response
      in \<lparr>st_article_content = rewritten_content rewriting_result,
          st_content_metadata =
            content_metadata.extend md
              \<lparr>md_rewriting_applied = rewriting_applied rewriting_result,
               md_target_quality_score = target_quality_score rewriting_result,
               md_improvement_metrics = rw_improvement_metrics rewriting_result\<rparr>,
          rewriting_data = rewriting_result\<rparr>)"

record workflow_data =
  wf_research_insights :: string
  wf_relevant_examples :: "example_document list"
  review_suggestions :: "string list"
  rewriting_improvements :: improvement_metrics

record generation_metadata =
  workflow_completed :: bool
  agents_used :: "string list"
  refinement_applied :: bool
  gm_rewriting_applied :: bool
  enhanced_mode :: bool
  target_quality_achieved :: bool

record final_result =
  final_content :: string
  fr_content_metadata :: rewritten_metadata
  quality_score :: rat
  fr_workflow_data :: workflow_data
  fr_generation_metadata :: generation_metadata
  excel_export_path :: string

text \<open>
  \<open>generate_content\<close>: the three model calls (writer, reviewer, rewriter) and the export
  collaborator are external; their outcomes are the last four arguments.  An exception of
  the writer or of the reviewer leaves the function (\<open>Inl\<close>); the export's exception is
  turned into text.
\<close>

definition generate_content ::
  "generation_request \<Rightarrow> error + string \<Rightarrow> error + string \<Rightarrow> error + string \<Rightarrow>
   error + string \<Rightarrow> error + final_result" where
  "generate_content request writer_response reviewer_response rewriter_response export =
     (let research = simplified_research request
      in case execute_writing research request writer_response of
           Inl e \<Rightarrow> Inl e
         | Inr writing \<Rightarrow>
             (case execute_review writing reviewer_response of
                Inl e \<Rightarrow> Inl e
              | Inr review \<Rightarrow>
                  (let final = execute_rewriting writing review research rewriter_response;
                       target_quality = md_target_quality_score (st_content_metadata final);
                       applied = md_rewriting_applied (st_content_metadata final)
                   in Inr \<lparr>final_content = st_article_content final,
                           fr_content_metadata = st_content_metadata final,
                           quality_score = (if applied then target_quality else 17 / 2),
                           fr_workflow_data =
                             \<lparr>wf_research_insights = research_insights research,
                              wf_relevant_examples = relevant_examples research,
                              review_suggestions = suggestions (rv_quality_assessment review),
                              rewriting_improvements =
                                rw_improvement_metrics (rewriting_data final)\<rparr>,
                           fr_generation_metadata =
                             \<lparr>workflow_completed = True,
                              agents_used = [''writer'', ''reviewer'', ''rewriter''],
                              refinement_applied = False,
                              gm_rewriting_applied = applied,
                              enhanced_mode = True,
                              target_quality_achieved = applied\<rparr>,
                           excel_export_path =
                             (case export of
                                Inr path \<Rightarrow> path
                              | Inl e \<Rightarrow> ''Export failed: '' @ error_message e)\<rparr>)))"

section \<open>Standalone application (app.py)\<close>

text \<open>
  \<open>app.py\<close> holds a second, self-contained implementation of the pipeline
  (\<open>MultiAgentContentGenerator\<close>).  Its text generator returns the prompt followed by the
  continuation, or raises; it is the argument \<open>generator\<close>.  The wall-clock field
  \<open>total_time\<close> of its results is left out.
\<close>

record app_content_metadata =
  am_topic :: string
  am_category :: string
  am_industry :: string
  am_target_audience :: string
  am_estimated_word_count :: nat
  am_content_length :: string

record app_writing_result =
  app_article_content :: string
  app_content_metadata :: app_content_metadata

record app_quality_assessment =
  qa_score :: rat
  qa_feedback :: string
  qa_suggestions :: "string list"

record app_rewrite_result =
  rr_content :: string
  rr_quality_score :: rat
  rr_rewriting_applied :: bool
  improvements_made :: nat

definition word_targets :: "string \<Rightarrow> string" where
  \<comment> \<open>\<open>word_targets.get(content_length, "700-900 words")\<close>\<close>
  "word_targets content_length =
     (if content_length = ''short'' then ''400-600 words''
      else if content_length = ''medium'' then ''700-900 words''
      else if content_length = ''long'' then ''1000-1300 words''
      else ''700-900 words'')"

definition writing_prompt ::
  "string \<Rightarrow> string \<Rightarrow> string \<Rightarrow> string \<Rightarrow> string \<Rightarrow> string \<Rightarrow> string" where
  "writing_prompt insights topic category industry target_audience target_words =
     ''You are a professional business writer for Jenosize consultancy. Write'' @
     '' a high-quality business article based on this research:'' @ nl @
     nl @
     ''RESEARCH INSIGHTS:'' @ nl @
     insights @ nl @
     nl @
     ''ARTICLE REQUIREMENTS:'' @ nl @
     ''- Topic: '' @ topic @ nl @
     ''- Category: '' @ category @ nl @
     ''- Industry: '' @ industry @ nl @
     ''- Target Audience: '' @ target_audience @ nl @
     ''- Length: '' @ target_words @ nl @
     nl @
     ''Write a complete professional business article with:'' @ nl @
     ''1. Compelling headline'' @ nl @
     ''2. Executive summary'' @ nl @
     ''3. Main sections with clear headings'' @ nl @
     ''4. Practical recommendations'' @ nl @
     ''5. Strong conclusion'' @ nl @
     nl @
     ''Article:'' @ nl @
     nl @
     ''# '' @ topic @ nl @
     nl @
     ''## Executive Summary'' @ nl @
     nl"

definition create_structured_article :: "string \<Rightarrow> string \<Rightarrow> string \<Rightarrow> string" where
  "create_structured_article topic category industry =
     (let sector = (if industry \<noteq> ''Select industry...'' then py_lower industry
                    else ''business'')
      in
     ''# '' @ topic @ nl @
     nl @
     ''## Executive Summary'' @ nl @
     nl @
     topic @ '' represents a critical strategic opportunity for organizations in the '' @
     sector @ '' sector. This analysis explores key considerations, implementation str'' @
     ''ategies, and actionable recommendations for business leaders navigatin'' @
     ''g this transformation.'' @ nl @
     nl @
     ''## Current Market Context'' @ nl @
     nl @
     ''Today'' @ [CHR 0x27] @
     ''s competitive landscape demands that organizations stay ahead of emerg'' @
     ''ing trends. '' @ topic @
     '' has become increasingly important as companies seek to:'' @ nl @
     nl @
     ''- Improve operational efficiency and productivity'' @ nl @
     ''- Enhance customer experience and satisfaction'' @ nl @
     ''- Drive sustainable growth and innovation'' @ nl @
     ''- Maintain competitive advantage in the market'' @ nl @
     nl @
     ''## Strategic Considerations'' @ nl @
     nl @
     ''### Key Benefits'' @ nl @
     ''- **Operational Excellence**: Streamlined processes and improved produ'' @
     ''ctivity'' @ nl @
     ''- **Market Positioning**: Enhanced competitive differentiation'' @ nl @
     ''- **Risk Mitigation**: Proactive approach to industry challenges'' @ nl @
     ''- **Innovation Catalyst**: Foundation for future growth initiatives'' @ nl @
     nl @
     ''### Implementation Challenges'' @ nl @
     ''- Resource allocation and budget considerations'' @ nl @
     ''- Change management and organizational readiness'' @ nl @
     ''- Technology integration requirements'' @ nl @
     ''- Talent acquisition and skill development'' @ nl @
     nl @
     ''## Recommendations for Business Leaders'' @ nl @
     nl @
     ''1. **Assess Current State**: Conduct comprehensive evaluation of exist'' @
     ''ing capabilities'' @ nl @
     ''2. **Develop Strategic Roadmap**: Create phased implementation plan wi'' @
     ''th clear milestones'' @ nl @
     ''3. **Invest in People**: Prioritize training and development for key s'' @
     ''takeholders'' @ nl @
     ''4. **Monitor Progress**: Establish KPIs and regular review processes'' @ nl @
     ''5. **Stay Agile**: Maintain flexibility to adapt to changing condition'' @ ''s'' @
     nl @
     nl @
     ''## Implementation Strategy'' @ nl @
     nl @
     ''### Phase 1: Foundation Building'' @ nl @
     ''- Stakeholder alignment and buy-in'' @ nl @
     ''- Resource planning and allocation'' @ nl @
     ''- Initial capability assessment'' @ nl @
     nl @
     ''### Phase 2: Pilot Programs'' @ nl @
     ''- Small-scale implementation'' @ nl @
     ''- Testing and refinement'' @ nl @
     ''- Success metrics validation'' @ nl @
     nl @
     ''### Phase 3: Full Deployment'' @ nl @
     ''- Organization-wide rollout'' @ nl @
     ''- Change management support'' @ nl @
     ''- Continuous improvement processes'' @ nl @
     nl @
     ''## Conclusion'' @ nl @
     nl @
     topic @ '' represents both an opportunity and a necessity for modern businesses.'' @
     '' Organizations that take a strategic, well-planned approach will be be'' @
     ''st positioned to realize the benefits while minimizing risks.'' @ nl @
     nl @
     ''The key to success lies in understanding your organization'' @ [CHR 0x27] @
     ''s unique context, developing a clear implementation strategy, and main'' @
     ''taining focus on measurable business outcomes.'' @ nl @
     nl @
     ''## Next Steps'' @ nl @
     nl @
     ''Business leaders should begin by:'' @ nl @
     ''- Conducting a comprehensive assessment of current capabilities'' @ nl @
     ''- Engaging with key stakeholders to build consensus'' @ nl @
     ''- Developing a detailed implementation roadmap'' @ nl @
     ''- Identifying quick wins to build momentum'' @ nl @
     nl @
     ''*For specific guidance tailored to your organization, consider engagin'' @
     ''g with experienced consultants who can provide customized recommendati'' @
     ''ons and support throughout the transformation journey.*'')"

definition app_writer_agent ::
  "(string \<Rightarrow> error + string) \<Rightarrow> research_result \<Rightarrow> string \<Rightarrow> string \<Rightarrow> app_writing_result" where
  "app_writer_agent generator research_data target_audience content_length =
     (let topic = rs_topic (rs_research_metadata research_data);
          category = rs_category (rs_research_metadata research_data);
          industry = rs_industry (rs_research_metadata research_data);
          prompt = writing_prompt (research_insights research_data) topic category industry
                     target_audience (word_targets content_length);
          content =
            (case generator prompt of
               Inr generated_text \<Rightarrow>
                 (let article = py_strip (py_replace prompt [] generated_text)
                  in if \<not> startswith article ''#'' then ''# '' @ topic @ nl @ nl @ article
                     else article)
             | Inl e \<Rightarrow> create_structured_article topic category industry)
      in \<lparr>app_article_content = content,
          app_content_metadata =
            \<lparr>am_topic = topic, am_category = category, am_industry = industry,
             am_target_audience = target_audience,
             am_estimated_word_count = length (py_split content),
             am_content_length = content_length\<rparr>\<rparr>)"

definition rewrite_prompt :: "string \<Rightarrow> string \<Rightarrow> string" where
  "rewrite_prompt original topic =
     ''You are Jenosize'' @ [CHR 0x27] @
     ''s expert content rewriter. Transform this business article to achieve '' @
     ''perfect 10/10 quality:'' @ nl @
     nl @
     ''ORIGINAL ARTICLE:'' @ nl @
     original @ nl @
     nl @
     ''IMPROVEMENT GOALS:'' @ nl @
     ''- Perfect Jenosize professional tone'' @ nl @
     ''- Enhanced executive-level insights'' @ nl @
     ''- Stronger business impact'' @ nl @
     ''- Clearer actionable recommendations'' @ nl @
     ''- Compelling conclusion'' @ nl @
     nl @
     ''Rewritten Article:'' @ nl @
     nl @
     ''# '' @ topic @ nl @
     nl"

definition enhance_content :: "string \<Rightarrow> string \<Rightarrow> string" where
  "enhance_content content topic =
     (let c1 = (if \<not> startswith content ''#'' then ''# '' @ topic @ nl @ nl @ content
                else content);
          c2 = py_strip (py_replace (nl @ nl @ nl) (nl @ nl) c1)
      in if \<not> contains ''conclusion'' (py_lower c2) \<and> length (py_split c2) > 100
         then c2 @
            (nl @
            nl @
            ''## Conclusion'' @ nl @
            nl @
            topic @ '' represents a significant opportunity for business transformation. Org'' @
            ''anizations that approach this strategically, with proper planning and '' @
            ''execution, will be well-positioned for future success in an increasing'' @
            ''ly competitive marketplace.'')
         else c2)"

definition app_rewriter_agent ::
  "(string \<Rightarrow> error + string) \<Rightarrow> app_writing_result \<Rightarrow> app_quality_assessment \<Rightarrow>
   research_result \<Rightarrow> app_rewrite_result" where
  "app_rewriter_agent generator writing_result assessment research_result =
     (let original_content = app_article_content writing_result;
          score = qa_score assessment;
          topic = rs_topic (rs_research_metadata research_result)
      in if score \<ge> 19 / 2
         then \<lparr>rr_content = original_content, rr_quality_score = 10,
               rr_rewriting_applied = False, improvements_made = 0\<rparr>
         else (let prompt = rewrite_prompt original_content topic
               in case generator prompt of
                    Inr generated_text \<Rightarrow>
                      (let rewritten = py_strip (py_replace prompt [] generated_text)
                       in if length (py_split rewritten) > 100 \<and> rewritten \<noteq> original_content
                          then \<lparr>rr_content = rewritten, rr_quality_score = 10,
                                rr_rewriting_applied = True, improvements_made = 3\<rparr>
                          else \<lparr>rr_content = enhance_content original_content topic,
                                rr_quality_score = 10, rr_rewriting_applied = True,
                                improvements_made = 1\<rparr>)
                  | Inl e \<Rightarrow>
                      \<lparr>rr_content = enhance_content original_content topic,
                       rr_quality_score = 10, rr_rewriting_applied = True,
                       improvements_made = 1\<rparr>))"

section \<open>Retrieval store (src/rag/simple\_vector\_store.py)\<close>

text \<open>
  The store keeps its documents in an SQLite table and a TF-IDF index in memory.  The
  table is the list of its rows in scan order; \<open>INSERT OR REPLACE\<close> deletes the row with
  the same primary key, if there is one, and appends the new row.  Metadata are JSON
  objects: association lists of keys and JSON values.

  The vectorizer, the cosine similarity and \<open>argsort\<close> belong to scikit-learn and NumPy.
  They are parameters of the model, collected in the record \<open>library\<close>: \<open>fit_transform\<close>
  either raises or returns the fitted vectorizer and one vector per text, \<open>transform\<close>
  maps a query, \<open>cosine_similarity\<close> compares two vectors (a real number stands for the
  float), and \<open>argsort\<close> returns indices.  A vectorizer whose fit raised stays unfitted,
  and \<open>transform\<close> then raises.
\<close>

datatype mvalue = MStr string | MNum rat | MBool bool | MNull

type_synonym metadata = "(string \<times> mvalue) list"

record document =
  doc_id :: string
  doc_content :: string
  doc_metadata :: metadata

record ('z, 'v) library =
  fit_transform :: "string list \<Rightarrow> error + ('z \<times> 'v list)"
  transform :: "'z \<Rightarrow> string \<Rightarrow> 'v"
  cosine_similarity :: "'v \<Rightarrow> 'v \<Rightarrow> real"
  argsort :: "real list \<Rightarrow> nat list"

datatype 'z vectorizer_state = Unfitted | Fitted 'z

record ('z, 'v) store =
  documents :: "document list"
  vectorizer :: "'z vectorizer_state option"
  document_vectors :: "'v list option"

definition get_all_documents :: "('z, 'v) store \<Rightarrow> document list" where
  "get_all_documents st = documents st"

definition get_document_count :: "('z, 'v) store \<Rightarrow> nat" where
  "get_document_count st = length (documents st)"

definition create_new_vectorizer ::
  "('z, 'v) library \<Rightarrow> ('z, 'v) store \<Rightarrow> error + ('z, 'v) store" where
  \<comment> \<open>on an exception of the fit the new, unfitted vectorizer is already assigned; the
      state after the exception is the one of \<open>fit_failed\<close>\<close>
  "create_new_vectorizer lib st =
     (if get_all_documents st \<noteq> []
      then (case fit_transform lib (map doc_content (get_all_documents st)) of
              Inl e \<Rightarrow> Inl e
            | Inr (z, vectors) \<Rightarrow>
                Inr (st\<lparr>vectorizer := Some (Fitted z), document_vectors := Some vectors\<rparr>))
      else Inr (st\<lparr>vectorizer := Some Unfitted, document_vectors := None\<rparr>))"

definition fit_failed :: "('z, 'v) store \<Rightarrow> ('z, 'v) store" where
  "fit_failed st = st\<lparr>vectorizer := Some Unfitted\<rparr>"

definition insert_or_replace :: "document \<Rightarrow> document list \<Rightarrow> document list" where
  "insert_or_replace d rows = filter (\<lambda>r. doc_id r \<noteq> doc_id d) rows @ [d]"

definition add_document ::
  "('z, 'v) library \<Rightarrow> ('z, 'v) store \<Rightarrow> string \<Rightarrow> metadata \<Rightarrow> string option \<Rightarrow>
   (error + string) \<times> ('z, 'v) store" where
  \<comment> \<open>the result, or the exception that is re-raised, and the state left behind\<close>
  "add_document lib st text md given_id =
     (let new_id = (case given_id of
                      None \<Rightarrow> ''doc_'' @ py_str (get_document_count st + 1)
                    | Some i \<Rightarrow> i);
          st1 = st\<lparr>documents :=
                  insert_or_replace \<lparr>doc_id = new_id, doc_content = text, doc_metadata = md\<rparr>
                    (documents st)\<rparr>
      in case create_new_vectorizer lib st1 of
           Inl e \<Rightarrow> (Inl e, fit_failed st1)
         | Inr st2 \<Rightarrow> (Inr new_id, st2))"

definition clear_collection :: "('z, 'v) store \<Rightarrow> ('z, 'v) store" where
  "clear_collection st = st\<lparr>documents := [], vectorizer := None, document_vectors := None\<rparr>"

definition matches_filter :: "metadata \<Rightarrow> metadata \<Rightarrow> bool" where
  "matches_filter md filter_metadata =
     list_all (\<lambda>(key, v). map_of md key = Some v) filter_metadata"

definition py_take :: "int \<Rightarrow> 'a list \<Rightarrow> 'a list" where
  \<comment> \<open>the slice \<open>xs[:n]\<close>; a negative \<open>n\<close> counts from the end\<close>
  "py_take n xs = (if 0 \<le> n then take (nat n) xs else take (length xs - nat (- n)) xs)"

record search_result =
  res_content :: string
  res_metadata :: metadata
  distance :: real
  res_id :: string

definition filtered_indices :: "document list \<Rightarrow> metadata option \<Rightarrow> nat list" where
  \<comment> \<open>an absent or empty filter selects every row\<close>
  "filtered_indices docs filter_metadata =
     (case filter_metadata of
        None \<Rightarrow> [0..<length docs]
      | Some flt \<Rightarrow>
          (if flt = [] then [0..<length docs]
           else filter (\<lambda>i. matches_filter (doc_metadata (docs ! i)) flt) [0..<length docs]))"

definition filtered_vectors :: "'v list \<Rightarrow> nat list \<Rightarrow> 'v list option" where
  \<comment> \<open>\<open>None\<close>: an index beyond the matrix, the \<open>IndexError\<close> of the row selection\<close>
  "filtered_vectors vectors idxs =
     (if length idxs < length vectors
      then (if list_all (\<lambda>i. i < length vectors) idxs then Some (map (\<lambda>i. vectors ! i) idxs)
            else None)
      else Some vectors)"

definition make_result :: "document \<Rightarrow> real \<Rightarrow> search_result" where
  "make_result d similarity =
     \<lparr>res_content = doc_content d, res_metadata = doc_metadata d, distance = 1 - similarity,
      res_id = doc_id d\<rparr>"

definition top_ranked ::
  "(real list \<Rightarrow> nat list) \<Rightarrow> document list \<Rightarrow> real list \<Rightarrow> int \<Rightarrow> nat list" where
  \<comment> \<open>the positions that the result loop keeps, in its order; a position outside the
      similarities or the documents raises, and the exception handler of \<open>search\<close> returns
      the empty list\<close>
  "top_ranked sorter docs similarities n_results =
     (let top_indices = py_take n_results (rev (sorter similarities))
      in if list_all (\<lambda>idx. idx < length similarities \<and> idx < length docs) top_indices
         then filter (\<lambda>idx. similarities ! idx > 0) top_indices
         else [])"

definition rank_results ::
  "(real list \<Rightarrow> nat list) \<Rightarrow> document list \<Rightarrow> real list \<Rightarrow> int \<Rightarrow> search_result list" where
  "rank_results sorter docs similarities n_results =
     map (\<lambda>idx. make_result (docs ! idx) (similarities ! idx))
       (top_ranked sorter docs similarities n_results)"

definition search ::
  "('z, 'v) library \<Rightarrow> ('z, 'v) store \<Rightarrow> string \<Rightarrow> int \<Rightarrow> metadata option \<Rightarrow>
   search_result list" where
  "search lib st query n_results filter_metadata =
     (case (vectorizer st, document_vectors st) of
        (Some vz, Some vectors) \<Rightarrow>
          (let docs = get_all_documents st
           in if docs = [] then []
              else (let idxs = filtered_indices docs filter_metadata;
                        selected = map (\<lambda>i. docs ! i) idxs
                    in if selected = [] then []
                       else (case vz of
                               Unfitted \<Rightarrow> []
                             | Fitted z \<Rightarrow>
                                 (case filtered_vectors vectors idxs of
                                    None \<Rightarrow> []
                                  | Some rows \<Rightarrow>
                                      rank_results (argsort lib) selected
                                        (map (cosine_similarity lib (transform lib z query)) rows)
                                        n_results))))
      | _ \<Rightarrow> [])"

text \<open>The documents that pass the filter and their similarities to the query, as
  \<open>search\<close> computes them.\<close>

definition search_selected :: "('z, 'v) store \<Rightarrow> metadata option \<Rightarrow> document list" where
  "search_selected st filter_metadata =
     map (\<lambda>i. get_all_documents st ! i)
       (filtered_indices (get_all_documents st) filter_metadata)"

definition search_similarities ::
  "('z, 'v) library \<Rightarrow> ('z, 'v) store \<Rightarrow> string \<Rightarrow> metadata option \<Rightarrow> real list" where
  "search_similarities lib st query filter_metadata =
     (case (vectorizer st, document_vectors st) of
        (Some (Fitted z), Some vectors) \<Rightarrow>
          (case filtered_vectors vectors
                  (filtered_indices (get_all_documents st) filter_metadata) of
             None \<Rightarrow> []
           | Some rows \<Rightarrow> map (cosine_similarity lib (transform lib z query)) rows)
      | _ \<Rightarrow> [])"

text \<open>
  What NumPy documents about \<open>argsort\<close>: a permutation of the positions that lists the
  values in ascending order.  The order of equal values is not part of it.  One function
  that satisfies it is the stable sort of the positions.
\<close>

definition is_argsort :: "real list \<Rightarrow> nat list \<Rightarrow> bool" where
  "is_argsort xs idxs = (sort idxs = [0..<length xs] \<and> sorted (map (\<lambda>i. xs ! i) idxs))"

definition stable_argsort :: "real list \<Rightarrow> nat list" where
  "stable_argsort xs = sort_key (\<lambda>i. xs ! i) [0..<length xs]"

text \<open>
  A library that stands in for the parameters where an example needs a concrete one: a
  text is its own vector, equal non-empty texts have similarity 1 and all other pairs 0,
  the fit raises when every text is empty.  On the texts of the examples (one-word texts
  without a common word, and the empty text) these are the values of TF-IDF vectors
  under cosine similarity.
\<close>

definition sample_library :: "(unit, string) library" where
  "sample_library =
     \<lparr>fit_transform = (\<lambda>texts. if list_all (\<lambda>t. t = []) texts
                                then Inl (ValueError ''empty vocabulary'')
                                else Inr ((), texts)),
      transform = (\<lambda>z q. q),
      cosine_similarity = (\<lambda>u v. if u = v \<and> u \<noteq> [] then 1 else 0),
      argsort = stable_argsort\<rparr>"

definition empty_store :: "(unit, string) store" where
  "empty_store = \<lparr>documents = [], vectorizer = Some Unfitted, document_vectors = None\<rparr>"

section \<open>Sample data\<close>

definition sample_request :: generation_request where
  "sample_request =
     \<lparr>req_topic = ''AI'', req_category = [], req_industry = [], req_target_audience = None,
      req_seo_keywords = [], req_content_length = None\<rparr>"


definition store_two :: "(unit, string) store" where
  "store_two = snd (add_document sample_library
       (snd (add_document sample_library empty_store ''alpha'' [(''source'', MStr ''template'')] (Some ''a'')))
       ''alpha'' [(''source'', MStr ''template'')] (Some ''b''))"


section \<open>Properties of the agents and of the coordinator\<close>

lemma rewrite_content_failure:
  "rewrite_content content md fb ex (Inl e) =
     \<lparr>rewritten_content = content, original_content = content,
      rw_improvement_metrics = Failed (error_message e),
      rewriting_applied = False, target_quality_score = 8\<rparr>"
  by (simp add: rewrite_content_def)

lemma rewrite_content_success:
  "rewrite_content content md fb ex (Inr g) =
     \<lparr>rewritten_content = parse_rewriting_response g, original_content = content,
      rw_improvement_metrics = Computed (calculate_improvements content (parse_rewriting_response g)),
      rewriting_applied = True, target_quality_score = 10\<rparr>"
  by (simp add: rewrite_content_def Let_def)

lemma execute_rewriting_data:
  "rewriting_data (execute_rewriting wr rv rs resp) =
     rewrite_content (article_content wr) (wr_content_metadata wr)
       ((if review_feedback rv \<noteq> [] then [review_feedback rv] else []) @
        suggestions (rv_quality_assessment rv))
       (relevant_examples rs) resp"
  by (simp add: execute_rewriting_def Let_def)

lemma execute_rewriting_fields:
  "st_article_content (execute_rewriting wr rv rs resp) =
     rewritten_content (rewriting_data (execute_rewriting wr rv rs resp))"
  "md_rewriting_applied (st_content_metadata (execute_rewriting wr rv rs resp)) =
     rewriting_applied (rewriting_data (execute_rewriting wr rv rs resp))"
  "md_target_quality_score (st_content_metadata (execute_rewriting wr rv rs resp)) =
     target_quality_score (rewriting_data (execute_rewriting wr rv rs resp))"
  by (simp_all add: execute_rewriting_def Let_def content_metadata.extend_def)

lemma generate_content_Inr:
  assumes "execute_writing (simplified_research req) req w = Inr wr"
    and "execute_review wr v = Inr rv"
  shows "\<exists>r. generate_content req w v rw ex = Inr r \<and>
     final_content r = st_article_content (execute_rewriting wr rv (simplified_research req) rw) \<and>
     quality_score r =
       (if md_rewriting_applied (st_content_metadata (execute_rewriting wr rv (simplified_research req) rw))
        then md_target_quality_score (st_content_metadata (execute_rewriting wr rv (simplified_research req) rw))
        else 17 / 2) \<and>
     gm_rewriting_applied (fr_generation_metadata r) =
       md_rewriting_applied (st_content_metadata (execute_rewriting wr rv (simplified_research req) rw))"
  using assms by (simp add: generate_content_def Let_def)

lemma generate_content_cases:
  assumes "generate_content req w v rw ex = Inr r"
  obtains wr rv where "execute_writing (simplified_research req) req w = Inr wr"
    and "execute_review wr v = Inr rv"
  using assms by (auto simp: generate_content_def Let_def split: sum.splits)

lemma sample_writing:
  "execute_writing (simplified_research sample_request) sample_request (Inr ''Draft text'') =
     Inr \<lparr>article_content = ''Draft text'',
          wr_content_metadata = \<lparr>cm_topic = ''AI'', cm_category = [], cm_industry = [],
            cm_target_audience = ''business executives'', cm_seo_keywords = [],
            cm_estimated_word_count = 2, cm_content_length = ''medium''\<rparr>\<rparr>"
  by (simp add: execute_writing_def writer_process_def simplified_research_def
      sample_request_def py_split_def py_isspace_def)

lemma sample_review:
  "execute_review \<lparr>article_content = ''Draft text'', wr_content_metadata = md\<rparr> (Inr fb) =
     Inr \<lparr>review_feedback = fb, rv_quality_assessment = parse_review_feedback fb,
          rv_content_metadata = md\<rparr>"
  by (simp add: execute_review_def reviewer_process_def)

lemma parse_rewriting_sample: "parse_rewriting_response ''A better article'' = ''A better article''"
  by (simp add: parse_rewriting_response_def py_strip_def py_isspace_def py_split_on_def
      meta_commentary_def py_lower_def lower_char_def Let_def)

text \<open>
  Claim C6.  When the rewriter's model call raises, \<open>rewrite_content\<close> returns a result
  instead of raising: the original content, \<open>rewriting_applied = False\<close> and the text of
  the exception in the metrics.  A pipeline run whose writing and review stages succeeded
  is therefore completed whatever exception the rewriting call raises; its final content is
  the writer's article and its metadata report that no rewriting was applied.
\<close>

theorem rewriting_failure_is_caught:
  "rewrite_content content md fb exs (Inl e) =
     \<lparr>rewritten_content = content, original_content = content,
      rw_improvement_metrics = Failed (error_message e),
      rewriting_applied = False, target_quality_score = 8\<rparr>
   \<and> (execute_writing (simplified_research req) req w = Inr wr \<longrightarrow>
        execute_review wr v = Inr rv \<longrightarrow>
        (\<exists>r. generate_content req w v (Inl e) ex = Inr r \<and>
             final_content r = article_content wr \<and>
             \<not> gm_rewriting_applied (fr_generation_metadata r)))"
proof (intro conjI impI)
  show "rewrite_content content md fb exs (Inl e) =
     \<lparr>rewritten_content = content, original_content = content,
      rw_improvement_metrics = Failed (error_message e),
      rewriting_applied = False, target_quality_score = 8\<rparr>"
    by (rule rewrite_content_failure)
next
  assume a: "execute_writing (simplified_research req) req w = Inr wr"
    and b: "execute_review wr v = Inr rv"
  from generate_content_Inr [OF a b, of "Inl e" ex]
  obtain r where r: "generate_content req w v (Inl e) ex = Inr r"
    "final_content r = st_article_content (execute_rewriting wr rv (simplified_research req) (Inl e))"
    "gm_rewriting_applied (fr_generation_metadata r) =
       md_rewriting_applied (st_content_metadata (execute_rewriting wr rv (simplified_research req) (Inl e)))"
    by blast
  have "final_content r = article_content wr"
    using r(2) by (simp add: execute_rewriting_fields execute_rewriting_data rewrite_content_failure)
  moreover have "\<not> gm_rewriting_applied (fr_generation_metadata r)"
    using r(3) by (simp add: execute_rewriting_fields execute_rewriting_data rewrite_content_failure)
  ultimately show "\<exists>r. generate_content req w v (Inl e) ex = Inr r \<and>
             final_content r = article_content wr \<and>
             \<not> gm_rewriting_applied (fr_generation_metadata r)"
    using r(1) by blast
qed

theorem rewriting_failure_is_caught_witness:
  "\<exists>r. generate_content sample_request (Inr ''Draft text'') (Inr ''OVERALL SCORE: 8/10'')
          (Inl (ModelError ''timeout'')) (Inr ''log.xlsx'') = Inr r \<and>
        final_content r = ''Draft text'' \<and>
        \<not> gm_rewriting_applied (fr_generation_metadata r)"
  using rewriting_failure_is_caught [THEN conjunct2, rule_format, OF sample_writing sample_review,
      of "''OVERALL SCORE: 8/10''" "ModelError ''timeout''" "Inr ''log.xlsx''"]
  by simp

text \<open>
  Claim C2.  Every completed run of \<open>generate_content\<close> went through a writing result and
  a review result, and its \<open>quality_score\<close> is 10 when the rewriting stage run on them
  reports \<open>rewriting_applied = True\<close>, and 8.5 otherwise.
\<close>

theorem quality_score_assembly:
  assumes "generate_content req w v rw ex = Inr r"
  shows "\<exists>wr rv. execute_writing (simplified_research req) req w = Inr wr \<and>
           execute_review wr v = Inr rv \<and>
           quality_score r =
             (if rewriting_applied (rewriting_data (execute_rewriting wr rv (simplified_research req) rw))
              then 10 else 17 / 2)"
proof -
  from assms obtain wr rv where a: "execute_writing (simplified_research req) req w = Inr wr"
    and b: "execute_review wr v = Inr rv"
    by (rule generate_content_cases)
  from generate_content_Inr [OF a b, of rw ex] assms
  have q: "quality_score r =
       (if md_rewriting_applied (st_content_metadata (execute_rewriting wr rv (simplified_research req) rw))
        then md_target_quality_score (st_content_metadata (execute_rewriting wr rv (simplified_research req) rw))
        else 17 / 2)"
    by auto
  have "quality_score r =
             (if rewriting_applied (rewriting_data (execute_rewriting wr rv (simplified_research req) rw))
              then 10 else 17 / 2)"
    unfolding q execute_rewriting_fields execute_rewriting_data
    by (cases rw) (simp_all add: rewrite_content_failure rewrite_content_success)
  with a b show ?thesis by blast
qed

theorem quality_score_assembly_witness:
  "(\<exists>r. generate_content sample_request (Inr ''Draft text'') (Inr ''OVERALL SCORE: 8/10'')
          (Inr ''A better article'') (Inr ''log.xlsx'') = Inr r \<and> quality_score r = 10)
   \<and> (\<exists>r. generate_content sample_request (Inr ''Draft text'') (Inr ''OVERALL SCORE: 8/10'')
          (Inl (ModelError ''timeout'')) (Inr ''log.xlsx'') = Inr r \<and> quality_score r = 17 / 2)"
proof (intro conjI)
  fix rw :: "error + string"
  have run: "\<exists>r. generate_content sample_request (Inr ''Draft text'')
      (Inr ''OVERALL SCORE: 8/10'') rw (Inr ''log.xlsx'') = Inr r \<and>
      quality_score r =
        (if rewriting_applied (rewrite_content ''Draft text''
             \<lparr>cm_topic = ''AI'', cm_category = [], cm_industry = [],
              cm_target_audience = ''business executives'', cm_seo_keywords = [],
              cm_estimated_word_count = 2, cm_content_length = ''medium''\<rparr>
             (''OVERALL SCORE: 8/10'' # suggestions (parse_review_feedback ''OVERALL SCORE: 8/10''))
             [] rw)
         then 10 else 17 / 2)" for rw
  proof -
    from generate_content_Inr [OF sample_writing sample_review,
        of "''OVERALL SCORE: 8/10''" rw "Inr ''log.xlsx''"]
    obtain r where r: "generate_content sample_request (Inr ''Draft text'')
      (Inr ''OVERALL SCORE: 8/10'') rw (Inr ''log.xlsx'') = Inr r"
      by blast
    have ex: "relevant_examples (simplified_research sample_request) = []"
      by (simp add: simplified_research_def)
    from quality_score_assembly [OF r] show ?thesis
      using r by (auto simp: sample_writing sample_review execute_rewriting_data ex)
  qed
  from run [of "Inr ''A better article''"]
  show "\<exists>r. generate_content sample_request (Inr ''Draft text'') (Inr ''OVERALL SCORE: 8/10'')
          (Inr ''A better article'') (Inr ''log.xlsx'') = Inr r \<and> quality_score r = 10"
    by (simp add: rewrite_content_success)
  from run [of "Inl (ModelError ''timeout'')"]
  show "\<exists>r. generate_content sample_request (Inr ''Draft text'') (Inr ''OVERALL SCORE: 8/10'')
          (Inl (ModelError ''timeout'')) (Inr ''log.xlsx'') = Inr r \<and> quality_score r = 17 / 2"
    by (simp add: rewrite_content_failure)
qed

text \<open>
  Claim C1 as stated fails on \<open>RewriterAgent.rewrite_content\<close>: the function has no
  parameter for a quality score, and the coordinator's rewriting stage does not read the
  reviewer's score.  With a review whose overall score is 9.8 (not below 9.5) and a model
  that answers, the stage reports \<open>rewriting_applied = True\<close> and its content is the
  model's text, not the draft.
\<close>

theorem rewrite_content_ignores_score_counterexample:
  "\<not> float_less (Fin (49 / 5)) (Fin (19 / 2))
   \<and> rewriting_applied (rewriting_data (execute_rewriting
        \<lparr>article_content = ''# Draft'',
         wr_content_metadata = \<lparr>cm_topic = ''AI'', cm_category = [], cm_industry = [],
           cm_target_audience = ''business executives'', cm_seo_keywords = [],
           cm_estimated_word_count = 2, cm_content_length = ''medium''\<rparr>\<rparr>
        \<lparr>review_feedback = ''OVERALL SCORE: 9.8/10'',
         rv_quality_assessment = \<lparr>overall_score = Fin (49 / 5), suggestions = [],
           needs_revision = False\<rparr>,
         rv_content_metadata = \<lparr>cm_topic = ''AI'', cm_category = [], cm_industry = [],
           cm_target_audience = ''business executives'', cm_seo_keywords = [],
           cm_estimated_word_count = 2, cm_content_length = ''medium''\<rparr>\<rparr>
        \<lparr>research_insights = ''Content topic: AI. Category: . Industry: .'',
         relevant_examples = [],
         rs_research_metadata = \<lparr>rs_topic = ''AI'', rs_category = [], rs_industry = [],
           rs_keywords = []\<rparr>\<rparr>
        (Inr ''A better article'')))
   \<and> rewritten_content (rewriting_data (execute_rewriting
        \<lparr>article_content = ''# Draft'',
         wr_content_metadata = \<lparr>cm_topic = ''AI'', cm_category = [], cm_industry = [],
           cm_target_audience = ''business executives'', cm_seo_keywords = [],
           cm_estimated_word_count = 2, cm_content_length = ''medium''\<rparr>\<rparr>
        \<lparr>review_feedback = ''OVERALL SCORE: 9.8/10'',
         rv_quality_assessment = \<lparr>overall_score = Fin (49 / 5), suggestions = [],
           needs_revision = False\<rparr>,
         rv_content_metadata = \<lparr>cm_topic = ''AI'', cm_category = [], cm_industry = [],
           cm_target_audience = ''business executives'', cm_seo_keywords = [],
           cm_estimated_word_count = 2, cm_content_length = ''medium''\<rparr>\<rparr>
        \<lparr>research_insights = ''Content topic: AI. Category: . Industry: .'',
         relevant_examples = [],
         rs_research_metadata = \<lparr>rs_topic = ''AI'', rs_category = [], rs_industry = [],
           rs_keywords = []\<rparr>\<rparr>
        (Inr ''A better article''))) = ''A better article''
   \<and> ''A better article'' \<noteq> ''# Draft''"
  by (simp add: execute_rewriting_data rewrite_content_success parse_rewriting_sample)

text \<open>
  Claim C1, amended.  \<open>RewriterAgent.rewrite_content\<close> always consults the model: when the
  call succeeds the result has \<open>rewriting_applied = True\<close>, target quality 10 and the
  cleaned answer as content; when the call raises it has the original content,
  \<open>rewriting_applied = False\<close> and target quality 8.  The short-circuit on a score of at
  least 9.5 is the one of \<open>_rewriter_agent\<close> in \<open>app.py\<close>: there the result is the original
  content with \<open>rewriting_applied = False\<close> and quality score 10, whatever the generator
  would have produced.
\<close>

theorem rewriter_score_handling:
  "rewriting_applied (rewrite_content content md fb exs (Inr g))
   \<and> target_quality_score (rewrite_content content md fb exs (Inr g)) = 10
   \<and> rewritten_content (rewrite_content content md fb exs (Inr g)) = parse_rewriting_response g
   \<and> \<not> rewriting_applied (rewrite_content content md fb exs (Inl e))
   \<and> target_quality_score (rewrite_content content md fb exs (Inl e)) = 8
   \<and> rewritten_content (rewrite_content content md fb exs (Inl e)) = content
   \<and> (qa_score a \<ge> 19 / 2 \<longrightarrow>
        app_rewriter_agent generator wr a rs =
          \<lparr>rr_content = app_article_content wr, rr_quality_score = 10,
           rr_rewriting_applied = False, improvements_made = 0\<rparr>)"
  by (simp add: rewrite_content_success rewrite_content_failure app_rewriter_agent_def Let_def)

theorem rewriter_score_handling_witness:
  "(49 / 5 :: rat) \<ge> 19 / 2
   \<and> app_rewriter_agent (\<lambda>p. Inr (p @ ''Another text''))
        \<lparr>app_article_content = ''# Draft'',
         app_content_metadata = \<lparr>am_topic = ''AI'', am_category = [], am_industry = [],
           am_target_audience = ''business executives'', am_estimated_word_count = 2,
           am_content_length = ''medium''\<rparr>\<rparr>
        \<lparr>qa_score = 49 / 5, qa_feedback = ''9.8'', qa_suggestions = []\<rparr>
        \<lparr>research_insights = ''Research'', relevant_examples = [],
         rs_research_metadata = \<lparr>rs_topic = ''AI'', rs_category = [], rs_industry = [],
           rs_keywords = []\<rparr>\<rparr> =
       \<lparr>rr_content = ''# Draft'', rr_quality_score = 10,
        rr_rewriting_applied = False, improvements_made = 0\<rparr>"
  using rewriter_score_handling [of _ _ _ _ _ _ "\<lparr>qa_score = 49 / 5, qa_feedback = ''9.8'', qa_suggestions = []\<rparr>"
      "\<lambda>p. Inr (p @ ''Another text'')"
      "\<lparr>app_article_content = ''# Draft'',
         app_content_metadata = \<lparr>am_topic = ''AI'', am_category = [], am_industry = [],
           am_target_audience = ''business executives'', am_estimated_word_count = 2,
           am_content_length = ''medium''\<rparr>\<rparr>"
      "\<lparr>research_insights = ''Research'', relevant_examples = [],
         rs_research_metadata = \<lparr>rs_topic = ''AI'', rs_category = [], rs_industry = [],
           rs_keywords = []\<rparr>\<rparr>"]
  by simp

subsection \<open>The writer\<close>

lemma writer_process_success:
  "ins \<noteq> [] \<Longrightarrow> \<exists>r. writer_process ins exs reqs (Inr g) = Inr r \<and> article_content r = g"
  by (simp add: writer_process_def)

lemma structured_article_heading: "startswith (create_structured_article t c i) ''#''"
  by (simp add: create_structured_article_def Let_def)

lemma app_writer_heading:
  "startswith (app_article_content (app_writer_agent generator rs ta cl)) ''#''"
  by (simp add: app_writer_agent_def Let_def structured_article_heading split: sum.splits)

lemma startswith_append: "startswith (p @ r) p"
  by (induction p) simp_all

lemma startswith_length: "startswith s p \<Longrightarrow> length p \<le> length s"
  by (induction s p rule: startswith.induct) simp_all

lemma replace_fuel_short: "length s < length old \<Longrightarrow> replace_fuel k old new s = s"
proof (induction k old new s rule: replace_fuel.induct)
  case (3 k old new c cs)
  have "\<not> startswith (c # cs) old"
    using 3(3) startswith_length [of "c # cs" old] by auto
  with 3 show ?case by simp
qed simp_all

lemma py_replace_prefix:
  assumes "length r < length p"
  shows "py_replace p [] (p @ r) = r"
proof -
  from assms obtain a as where p: "p = a # as" by (cases p) auto
  have "replace_fuel (Suc (length (p @ r))) p [] (p @ r) =
        replace_fuel (length (p @ r)) p [] (drop (length p) (p @ r))"
    using startswith_append [of p r] by (simp add: p)
  also have "\<dots> = r" using assms by (simp add: replace_fuel_short)
  finally show ?thesis by (simp add: py_replace_def p)
qed

lemma writing_prompt_long: "10 < length (writing_prompt i t c d a w)"
  by (simp add: writing_prompt_def)

text \<open>
  Claim C5 as stated fails on \<open>WriterAgent.process\<close>: a model answer without a heading is
  returned as it is.
\<close>

theorem writer_heading_counterexample:
  "writer_process ''Content topic: AI. Category: . Industry: .'' []
     \<lparr>cr_topic = ''AI'', cr_category = [], cr_industry = [],
      cr_target_audience = ''business executives'', cr_seo_keywords = [],
      cr_content_length = ''medium''\<rparr>
     (Inr ''Plain text'') =
   Inr \<lparr>article_content = ''Plain text'',
        wr_content_metadata = \<lparr>cm_topic = ''AI'', cm_category = [], cm_industry = [],
          cm_target_audience = ''business executives'', cm_seo_keywords = [],
          cm_estimated_word_count = 2, cm_content_length = ''medium''\<rparr>\<rparr>
   \<and> \<not> startswith ''Plain text'' ''#''"
  by (simp add: writer_process_def py_split_def py_isspace_def)

text \<open>
  Claim C5, amended.  \<open>WriterAgent.process\<close> returns the model's answer unchanged as
  \<open>article_content\<close>.  The post-processing is the one of \<open>_writer_agent\<close> in \<open>app.py\<close>: its
  \<open>article_content\<close> always starts with \<open>#\<close>, and when the generator answers and the
  stripped continuation has no leading \<open>#\<close>, the content is the heading \<open># topic\<close>, an
  empty line and that continuation.
\<close>

theorem writer_heading_post_processing:
  "(ins \<noteq> [] \<longrightarrow>
      (\<exists>r. writer_process ins exs reqs (Inr g) = Inr r \<and> article_content r = g))
   \<and> startswith (app_article_content (app_writer_agent generator rs ta cl)) ''#''
   \<and> (generator (writing_prompt (research_insights rs) (rs_topic (rs_research_metadata rs))
          (rs_category (rs_research_metadata rs)) (rs_industry (rs_research_metadata rs))
          ta (word_targets cl)) = Inr t \<longrightarrow>
       \<not> startswith (py_strip (py_replace (writing_prompt (research_insights rs)
          (rs_topic (rs_research_metadata rs)) (rs_category (rs_research_metadata rs))
          (rs_industry (rs_research_metadata rs)) ta (word_targets cl)) [] t)) ''#'' \<longrightarrow>
       app_article_content (app_writer_agent generator rs ta cl) =
         ''# '' @ rs_topic (rs_research_metadata rs) @ nl @ nl @
         py_strip (py_replace (writing_prompt (research_insights rs)
          (rs_topic (rs_research_metadata rs)) (rs_category (rs_research_metadata rs))
          (rs_industry (rs_research_metadata rs)) ta (word_targets cl)) [] t))"
proof (intro conjI impI)
  assume "ins \<noteq> []"
  then show "\<exists>r. writer_process ins exs reqs (Inr g) = Inr r \<and> article_content r = g"
    by (rule writer_process_success)
next
  show "startswith (app_article_content (app_writer_agent generator rs ta cl)) ''#''"
    by (rule app_writer_heading)
next
  let ?p = "writing_prompt (research_insights rs) (rs_topic (rs_research_metadata rs))
          (rs_category (rs_research_metadata rs)) (rs_industry (rs_research_metadata rs))
          ta (word_targets cl)"
  assume "generator ?p = Inr t" and "\<not> startswith (py_strip (py_replace ?p [] t)) ''#''"
  then show "app_article_content (app_writer_agent generator rs ta cl) =
         ''# '' @ rs_topic (rs_research_metadata rs) @ nl @ nl @ py_strip (py_replace ?p [] t)"
    by (simp add: app_writer_agent_def Let_def)
qed

theorem writer_heading_post_processing_witness:
  "''Content topic: AI.'' \<noteq> []
   \<and> (\<exists>r. writer_process ''Content topic: AI.'' []
          \<lparr>cr_topic = ''AI'', cr_category = [], cr_industry = [],
           cr_target_audience = ''business executives'', cr_seo_keywords = [],
           cr_content_length = ''medium''\<rparr> (Inr ''Plain text'') = Inr r \<and>
        article_content r = ''Plain text'')
   \<and> app_article_content (app_writer_agent (\<lambda>p. Inr (p @ ''Plain text''))
        \<lparr>research_insights = ''Research'', relevant_examples = [],
         rs_research_metadata = \<lparr>rs_topic = ''AI'', rs_category = [], rs_industry = [],
           rs_keywords = []\<rparr>\<rparr> ''business executives'' ''medium'') =
       ''# AI'' @ nl @ nl @ ''Plain text''"
proof -
  let ?rs = "\<lparr>research_insights = ''Research'', relevant_examples = [],
         rs_research_metadata = \<lparr>rs_topic = ''AI'', rs_category = [], rs_industry = [],
           rs_keywords = []\<rparr>\<rparr>"
  let ?p = "writing_prompt ''Research'' ''AI'' [] [] ''business executives'' (word_targets ''medium'')"
  have r: "py_replace ?p [] (?p @ ''Plain text'') = ''Plain text''"
    by (rule py_replace_prefix) (use writing_prompt_long [of "''Research''" "''AI''" "[]" "[]" "''business executives''" "word_targets ''medium''"] in simp)
  have s: "py_strip ''Plain text'' = ''Plain text''"
    by (simp add: py_strip_def py_isspace_def)
  show ?thesis
    using writer_heading_post_processing [of "''Content topic: AI.''" "[]"
        "\<lparr>cr_topic = ''AI'', cr_category = [], cr_industry = [],
           cr_target_audience = ''business executives'', cr_seo_keywords = [],
           cr_content_length = ''medium''\<rparr>" "''Plain text''"
        "\<lambda>p. Inr (p @ ''Plain text'')" ?rs "''business executives''" "''medium''"
        "?p @ ''Plain text''"]
    by (simp add: r s)
qed

section \<open>Properties of the reviewer's parser\<close>



















section \<open>Properties of the retrieval store\<close>

lemma rank_results_empty_sims: "rank_results sorter docs [] n = []"
  by (cases "py_take n (rev (sorter []))") (simp_all add: rank_results_def top_ranked_def Let_def)

lemma rank_results_empty_docs: "rank_results sorter [] sims n = []"
  by (cases "py_take n (rev (sorter sims))") (simp_all add: rank_results_def top_ranked_def Let_def)

lemma filtered_indices_Nil: "filtered_indices [] f = []"
  by (simp add: filtered_indices_def split: option.splits)

lemma search_rank:
  "search lib st q n f =
     rank_results (argsort lib) (search_selected st f) (search_similarities lib st q f) n"
  by (auto simp: search_def search_selected_def search_similarities_def Let_def
      rank_results_empty_sims rank_results_empty_docs filtered_indices_Nil
      split: option.splits vectorizer_state.splits)

lemma top_ranked_subset:
  "set (top_ranked sorter docs sims n) \<subseteq> {i. i < length sims \<and> i < length docs \<and> 0 < sims ! i}"
  by (auto simp: top_ranked_def Let_def list_all_iff)

lemma py_take_sorted_wrt: "sorted_wrt R xs \<Longrightarrow> sorted_wrt R (py_take n xs)"
  by (simp add: py_take_def sorted_wrt_take)


lemma top_ranked_sorted_wrt:
  assumes "sorted_wrt R (rev (sorter sims))"
  shows "sorted_wrt R (top_ranked sorter docs sims n)"
  using assms by (simp add: top_ranked_def Let_def py_take_sorted_wrt sorted_wrt_filter)

lemma is_argsort_descending:
  assumes "is_argsort xs idxs"
  shows "sorted_wrt (\<lambda>i j. xs ! j \<le> xs ! i) (rev idxs)"
proof -
  from assms have "sorted (map (\<lambda>i. xs ! i) idxs)" by (simp add: is_argsort_def)
  then have "sorted_wrt (\<lambda>i j. xs ! i \<le> xs ! j) idxs"
    by (simp add: sorted_wrt_map)
  then show ?thesis by (simp add: sorted_wrt_rev)
qed

lemma insort_key_lex:
  assumes "sorted_wrt (\<lambda>i j. f i < f j \<or> (f i = f j \<and> i < j)) ys"
    and "\<forall>y\<in>set ys. x < y"
  shows "sorted_wrt (\<lambda>i j. f i < f j \<or> (f i = f j \<and> i < j)) (insort_key f x ys)"
  using assms
proof (induction ys)
  case Nil
  then show ?case by simp
next
  case (Cons y ys)
  show ?case
  proof (cases "f x \<le> f y")
    case True
    have "\<forall>z\<in>set (y # ys). f x < f z \<or> (f x = f z \<and> x < z)"
    proof
      fix z assume z: "z \<in> set (y # ys)"
      have "f y \<le> f z" using Cons.prems(1) z by auto
      with True have "f x \<le> f z" by simp
      moreover have "x < z" using Cons.prems(2) z by auto
      ultimately show "f x < f z \<or> (f x = f z \<and> x < z)" by auto
    qed
    with True Cons.prems(1) show ?thesis by simp
  next
    case False
    then have "f y < f x" by simp
    moreover have "sorted_wrt (\<lambda>i j. f i < f j \<or> (f i = f j \<and> i < j)) (insort_key f x ys)"
      using Cons by simp
    moreover have "\<forall>z\<in>set (insort_key f x ys). f y < f z \<or> (f y = f z \<and> y < z)"
      using Cons.prems(1) \<open>f y < f x\<close> by (auto simp: set_insort_key)
    ultimately show ?thesis using False by simp
  qed
qed

lemma sort_key_lex:
  fixes f :: "nat \<Rightarrow> real"
  assumes "sorted_wrt (<) xs"
  shows "sorted_wrt (\<lambda>i j. f i < f j \<or> (f i = f j \<and> i < j)) (sort_key f xs)"
  using assms
proof (induction xs)
  case Nil
  then show ?case by simp
next
  case (Cons x xs)
  then have "\<forall>y\<in>set (sort_key f xs). x < y" by auto
  with Cons show ?case by (simp add: insort_key_lex)
qed

lemma stable_argsort_lex:
  "sorted_wrt (\<lambda>i j. xs ! j < xs ! i \<or> (xs ! i = xs ! j \<and> j < i)) (rev (stable_argsort xs))"
proof -
  have "sorted_wrt (<) [0..<length xs]"
    by (simp add: sorted_wrt_iff_nth_less)
  from sort_key_lex [OF this, of "\<lambda>i. xs ! i"]
  show ?thesis
    unfolding stable_argsort_def sorted_wrt_rev
    by (rule sorted_wrt_mono_rel [rotated]) auto
qed

lemma sort_stable_argsort: "sort (stable_argsort xs) = [0..<length xs]"
  by (rule sorted_distinct_set_unique) (simp_all add: stable_argsort_def)

lemma stable_argsort_is_argsort: "is_argsort xs (stable_argsort xs)"
  by (simp add: is_argsort_def sort_stable_argsort) (simp add: stable_argsort_def)

lemma search_results_eq:
  "search lib st q n f =
     map (\<lambda>idx. make_result (search_selected st f ! idx) (search_similarities lib st q f ! idx))
       (top_ranked (argsort lib) (search_selected st f) (search_similarities lib st q f) n)"
  by (simp add: search_rank rank_results_def)

lemma search_distance_less:
  assumes "r \<in> set (search lib st q n f)"
  shows "distance r < 1"
proof -
  from assms obtain idx where
    "idx \<in> set (top_ranked (argsort lib) (search_selected st f) (search_similarities lib st q f) n)"
    and r: "r = make_result (search_selected st f ! idx) (search_similarities lib st q f ! idx)"
    by (auto simp: search_results_eq)
  then have "0 < search_similarities lib st q f ! idx"
    using top_ranked_subset by blast
  then show ?thesis by (simp add: r make_result_def)
qed






lemma store_two_documents: "map doc_id (documents store_two) = [''a'', ''b'']"
  by code_simp

lemma store_two_search: "map res_id (search sample_library store_two ''alpha'' 5 None) = [''b'', ''a'']"
  by code_simp

lemma store_two_distance: "map distance (search sample_library store_two ''alpha'' 5 None) = [0, 0]"
  by code_simp


lemma sample_argsort: "argsort sample_library = stable_argsort"
  by (simp add: sample_library_def)


lemma store_two_similarities:
  "search_similarities sample_library store_two ''alpha'' None = [1, 1]"
  by code_simp

lemma store_two_ranking:
  "top_ranked (argsort sample_library) (search_selected store_two None)
     (search_similarities sample_library store_two ''alpha'' None) 5 = [1, 0]"
  by code_simp


text \<open>
  Claim C4 as stated fails on \<open>search\<close>: equal similarities are not returned in insertion
  order.  The ranking is \<open>argsort\<close> reversed; even with a stable \<open>argsort\<close> two documents
  with the same text come back with the later one first.
\<close>

theorem search_tie_order_counterexample:
  "map doc_id (documents store_two) = [''a'', ''b'']
   \<and> is_argsort (search_similarities sample_library store_two ''alpha'' None)
        (argsort sample_library (search_similarities sample_library store_two ''alpha'' None))
   \<and> map distance (search sample_library store_two ''alpha'' 5 None) = [0, 0]
   \<and> map res_id (search sample_library store_two ''alpha'' 5 None) = [''b'', ''a'']"
  by (simp add: store_two_documents store_two_distance store_two_search sample_argsort
      stable_argsort_is_argsort)

text \<open>
  Claim C4, amended.  \<open>search\<close> returns exactly the documents at the kept positions, each
  with a strictly positive similarity (a distance below 1).  When \<open>argsort\<close> returns an
  ascending permutation, the kept positions are in non-increasing order of similarity.
  The order among equal similarities is the one of the reversed \<open>argsort\<close>: with a stable
  \<open>argsort\<close>, equal similarities come in reverse row order, the later document first.
\<close>

theorem search_positive_ranked:
  "search lib st q n f =
     map (\<lambda>idx. make_result (search_selected st f ! idx) (search_similarities lib st q f ! idx))
       (top_ranked (argsort lib) (search_selected st f) (search_similarities lib st q f) n)
   \<and> (\<forall>idx \<in> set (top_ranked (argsort lib) (search_selected st f)
                    (search_similarities lib st q f) n).
         idx < length (search_similarities lib st q f) \<and> idx < length (search_selected st f) \<and>
         0 < search_similarities lib st q f ! idx)
   \<and> (\<forall>r \<in> set (search lib st q n f). distance r < 1)
   \<and> (is_argsort (search_similarities lib st q f) (argsort lib (search_similarities lib st q f)) \<longrightarrow>
        sorted_wrt (\<lambda>i j. search_similarities lib st q f ! j \<le> search_similarities lib st q f ! i)
          (top_ranked (argsort lib) (search_selected st f) (search_similarities lib st q f) n))
   \<and> (argsort lib = stable_argsort \<longrightarrow>
        sorted_wrt (\<lambda>i j. search_similarities lib st q f ! j < search_similarities lib st q f ! i \<or>
                          (search_similarities lib st q f ! i = search_similarities lib st q f ! j \<and> j < i))
          (top_ranked (argsort lib) (search_selected st f) (search_similarities lib st q f) n))"
proof (intro conjI impI ballI)
  show "search lib st q n f =
     map (\<lambda>idx. make_result (search_selected st f ! idx) (search_similarities lib st q f ! idx))
       (top_ranked (argsort lib) (search_selected st f) (search_similarities lib st q f) n)"
    by (rule search_results_eq)
next
  fix idx
  assume "idx \<in> set (top_ranked (argsort lib) (search_selected st f) (search_similarities lib st q f) n)"
  then have "idx \<in> {i. i < length (search_similarities lib st q f) \<and> i < length (search_selected st f) \<and>
         0 < search_similarities lib st q f ! i}"
    using top_ranked_subset by blast
  then show "idx < length (search_similarities lib st q f)"
    and "idx < length (search_selected st f)"
    and "0 < search_similarities lib st q f ! idx"
    by simp_all
next
  fix r assume "r \<in> set (search lib st q n f)"
  then show "distance r < 1" by (rule search_distance_less)
next
  assume "is_argsort (search_similarities lib st q f) (argsort lib (search_similarities lib st q f))"
  then show "sorted_wrt (\<lambda>i j. search_similarities lib st q f ! j \<le> search_similarities lib st q f ! i)
          (top_ranked (argsort lib) (search_selected st f) (search_similarities lib st q f) n)"
    by (intro top_ranked_sorted_wrt is_argsort_descending)
next
  assume "argsort lib = stable_argsort"
  then show "sorted_wrt (\<lambda>i j. search_similarities lib st q f ! j < search_similarities lib st q f ! i \<or>
                          (search_similarities lib st q f ! i = search_similarities lib st q f ! j \<and> j < i))
          (top_ranked (argsort lib) (search_selected st f) (search_similarities lib st q f) n)"
    by (simp add: top_ranked_sorted_wrt stable_argsort_lex)
qed

theorem search_positive_ranked_witness:
  "argsort sample_library = stable_argsort
   \<and> is_argsort (search_similarities sample_library store_two ''alpha'' None)
        (argsort sample_library (search_similarities sample_library store_two ''alpha'' None))
   \<and> search_similarities sample_library store_two ''alpha'' None = [1, 1]
   \<and> top_ranked (argsort sample_library) (search_selected store_two None)
        (search_similarities sample_library store_two ''alpha'' None) 5 = [1, 0]
   \<and> sorted_wrt (\<lambda>i j. [1, 1 :: real] ! j < [1, 1] ! i \<or> ([1, 1 :: real] ! i = [1, 1] ! j \<and> j < i))
        [1, 0 :: nat]
   \<and> map distance (search sample_library store_two ''alpha'' 5 None) = [0, 0]"
proof -
  have a: "is_argsort (search_similarities sample_library store_two ''alpha'' None)
        (argsort sample_library (search_similarities sample_library store_two ''alpha'' None))"
    by (simp add: sample_argsort stable_argsort_is_argsort)
  from search_positive_ranked [of sample_library store_two "''alpha''" 5 None]
  have "sorted_wrt (\<lambda>i j. search_similarities sample_library store_two ''alpha'' None ! j
                            < search_similarities sample_library store_two ''alpha'' None ! i \<or>
                          (search_similarities sample_library store_two ''alpha'' None ! i =
                           search_similarities sample_library store_two ''alpha'' None ! j \<and> j < i))
          (top_ranked (argsort sample_library) (search_selected store_two None)
             (search_similarities sample_library store_two ''alpha'' None) 5)"
    using sample_argsort by blast
  then have "sorted_wrt (\<lambda>i j. [1, 1 :: real] ! j < [1, 1] ! i \<or>
                 ([1, 1 :: real] ! i = [1, 1] ! j \<and> j < i)) [1, 0 :: nat]"
    unfolding store_two_ranking unfolding store_two_similarities .
  with a sample_argsort store_two_similarities store_two_ranking store_two_distance
  show ?thesis by blast
qed




subsection \<open>Adding a document under an id that exists\<close>





lemma length_insert_or_replace_fresh:
  assumes "doc_id d \<notin> set (map doc_id rows)"
  shows "length (insert_or_replace d rows) = Suc (length rows)"
proof -
  have "\<forall>x\<in>set rows. doc_id x \<noteq> doc_id d"
    using assms by (fastforce simp: image_iff)
  then have "filter (\<lambda>r. doc_id r \<noteq> doc_id d) rows = rows"
    by (simp add: filter_id_conv)
  then show ?thesis by (simp add: insert_or_replace_def)
qed




lemma py_str_2: "py_str 2 = ''2''"
  by code_simp






subsection \<open>Adding a document and searching for its content\<close>


















section \<open>Properties of the content validator\<close>

lemma issues_validate_content:
  "issues (validate_content c ks) =
     (if length (py_split c) < min_word_count
      then [''Content too short: '' @ py_str (length (py_split c)) @ '' words (minimum: '' @
            py_str min_word_count @ '')''] else []) @
     (if length (py_split c) > max_word_count
      then [''Content too long: '' @ py_str (length (py_split c)) @ '' words (maximum: '' @
            py_str max_word_count @ '')''] else []) @
     (if py_strip c = [] then [''Content is empty''] else [])"
  by (simp add: validate_content_def Let_def)

lemma is_valid_validate_content:
  "is_valid (validate_content c ks) =
     (\<not> length (py_split c) < min_word_count \<and> \<not> length (py_split c) > max_word_count \<and>
      py_strip c \<noteq> [])"
  by (simp add: validate_content_def Let_def)

lemma py_str_0: "py_str 0 = ''0''"
  by code_simp

lemma py_str_50: "py_str 50 = ''50''"
  by code_simp

lemma py_str_100: "py_str 100 = ''100''"
  by code_simp

lemma py_str_3000: "py_str 3000 = ''3000''"
  by code_simp

lemma py_str_4000: "py_str 4000 = ''4000''"
  by code_simp

lemma split_ws_word: "split_ws [] (''w '' @ rest) = ''w'' # split_ws [] rest"
  by (simp add: py_isspace_def)

lemma py_split_words: "py_split (concat (replicate n ''w '')) = replicate n ''w''"
  unfolding py_split_def
proof (induction n)
  case 0
  show ?case by simp
next
  case (Suc n)
  have "split_ws [] (concat (replicate (Suc n) ''w '')) =
        split_ws [] (''w '' @ concat (replicate n ''w ''))"
    by simp
  also have "\<dots> = ''w'' # split_ws [] (concat (replicate n ''w ''))"
    by (rule split_ws_word)
  finally show ?case using Suc by simp
qed

text \<open>
  Claim C8.  A content of exactly 50 whitespace-separated words is reported invalid with
  the issue that cites the minimum of 100 words; a content of exactly 4000 words is
  reported invalid with the issue that cites the maximum of 3000 words; the empty string
  is reported invalid with exactly two issues, the minimum-length one (0 words) followed by
  the empty-content one.  This holds whatever the SEO keywords of the metadata are.
\<close>

theorem validate_content_length_issues:
  "(length (py_split c) = 50 \<longrightarrow>
      \<not> is_valid (validate_content c ks) \<and>
      ''Content too short: 50 words (minimum: 100)'' \<in> set (issues (validate_content c ks)))
   \<and> (length (py_split d) = 4000 \<longrightarrow>
      \<not> is_valid (validate_content d ks) \<and>
      ''Content too long: 4000 words (maximum: 3000)'' \<in> set (issues (validate_content d ks)))
   \<and> \<not> is_valid (validate_content [] ks)
   \<and> issues (validate_content [] ks) =
        [''Content too short: 0 words (minimum: 100)'', ''Content is empty'']"
proof (intro conjI impI)
  assume h: "length (py_split c) = 50"
  show "\<not> is_valid (validate_content c ks)"
    by (simp add: is_valid_validate_content h min_word_count_def)
  show "''Content too short: 50 words (minimum: 100)'' \<in> set (issues (validate_content c ks))"
    by (simp add: issues_validate_content h min_word_count_def max_word_count_def
        py_str_50 py_str_100)
next
  assume h: "length (py_split d) = 4000"
  show "\<not> is_valid (validate_content d ks)"
    by (simp add: is_valid_validate_content h max_word_count_def)
  show "''Content too long: 4000 words (maximum: 3000)'' \<in> set (issues (validate_content d ks))"
    by (simp add: issues_validate_content h min_word_count_def max_word_count_def
        py_str_4000 py_str_3000)
next
  show "\<not> is_valid (validate_content [] ks)"
    by (simp add: is_valid_validate_content py_strip_def)
  show "issues (validate_content [] ks) =
        [''Content too short: 0 words (minimum: 100)'', ''Content is empty'']"
    by (simp add: issues_validate_content py_split_def py_strip_def min_word_count_def
        max_word_count_def py_str_0 py_str_100)
qed

theorem validate_content_length_issues_witness:
  "length (py_split (concat (replicate 50 ''w ''))) = 50
   \<and> \<not> is_valid (validate_content (concat (replicate 50 ''w '')) [])
   \<and> ''Content too short: 50 words (minimum: 100)''
        \<in> set (issues (validate_content (concat (replicate 50 ''w '')) []))
   \<and> length (py_split (concat (replicate 4000 ''w ''))) = 4000
   \<and> \<not> is_valid (validate_content (concat (replicate 4000 ''w '')) [])
   \<and> ''Content too long: 4000 words (maximum: 3000)''
        \<in> set (issues (validate_content (concat (replicate 4000 ''w '')) []))
   \<and> issues (validate_content [] []) =
        [''Content too short: 0 words (minimum: 100)'', ''Content is empty'']"
  using validate_content_length_issues
    [of "concat (replicate 50 ''w '')" "[]" "concat (replicate 4000 ''w '')"]
  by (simp only: py_split_words length_replicate simp_thms)

end
